theory Spec2Isabelle
  imports Main
begin

section \<open>DoubleBuffer\<close>

text \<open>
  The class template \<^verbatim>\<open>DoubleBuffer<T>\<close> holds \<^verbatim>\<open>T buffers[2]\<close> and an
  \<^verbatim>\<open>int currentBuffer\<close>. Both getters return a reference into the array; the
  reference is modelled by the index of the slot it designates, and a read or a write
  through a reference is modelled by \<open>slot\<close> and \<open>assign\<close>. Indexing outside the
  two slots is undefined behaviour in the source and is \<open>None\<close> / no change here.
\<close>

record 'a DoubleBuffer =
  buffers :: "'a list"
  currentBuffer :: int

definition DoubleBuffer_ctor :: "'a \<Rightarrow> 'a \<Rightarrow> 'a DoubleBuffer" where
  "DoubleBuffer_ctor t0 t1 = \<lparr>buffers = [t0, t1], currentBuffer = 0\<rparr>"

definition getWriteBuffer :: "'a DoubleBuffer \<Rightarrow> int" where
  "getWriteBuffer b = currentBuffer b"

definition getReadBuffer :: "'a DoubleBuffer \<Rightarrow> int" where
  "getReadBuffer b = 1 - currentBuffer b"

definition swap :: "'a DoubleBuffer \<Rightarrow> 'a DoubleBuffer" where
  "swap b = b\<lparr>currentBuffer := 1 - currentBuffer b\<rparr>"

definition slot :: "'a DoubleBuffer \<Rightarrow> int \<Rightarrow> 'a option" where
  "slot b i = (if 0 \<le> i \<and> i < int (length (buffers b)) then Some (buffers b ! nat i) else None)"

definition assign :: "'a DoubleBuffer \<Rightarrow> int \<Rightarrow> 'a \<Rightarrow> 'a DoubleBuffer" where
  "assign b i v = (if 0 \<le> i \<and> i < int (length (buffers b)) then b\<lparr>buffers := (buffers b)[nat i := v]\<rparr> else b)"

text \<open>
  The instances a program can hold: \<open>currentBuffer\<close> is private, so an instance is
  the constructor's, followed by calls of \<open>swap\<close> and writes through the two references.
\<close>

inductive DoubleBuffer_instance :: "'a DoubleBuffer \<Rightarrow> bool" where
  ctor: "DoubleBuffer_instance (DoubleBuffer_ctor t0 t1)"
| swapped: "DoubleBuffer_instance b \<Longrightarrow> DoubleBuffer_instance (swap b)"
| written: "DoubleBuffer_instance b \<Longrightarrow> DoubleBuffer_instance (assign b (getWriteBuffer b) v)"
| written_read: "DoubleBuffer_instance b \<Longrightarrow> DoubleBuffer_instance (assign b (getReadBuffer b) v)"

section \<open>Remote configuration: data model\<close>

text \<open>
  Modelled from the spec: the protobuf enum \<^verbatim>\<open>configserver::proto::CheckStatus\<close> is not
  part of the source file; the spec's data model gives a check result the status
  NEW, MODIFIED, DELETED or UNCHANGED. The source names NEW, DELETED and MODIFIED and
  treats every other value in the \<^verbatim>\<open>default\<close> branch of its switch.
\<close>

datatype CheckStatus = NEW | DELETED | MODIFIED | UNCHANGED

text \<open>
  Modelled from the spec: the protobuf messages are not part of the source file. Their
  fields are the accessors the source calls (\<^verbatim>\<open>name()\<close>, \<^verbatim>\<open>check_status()\<close>,
  \<^verbatim>\<open>old_version()\<close>, \<^verbatim>\<open>new_version()\<close>, \<^verbatim>\<open>context()\<close>, \<^verbatim>\<open>detail()\<close>,
  \<^verbatim>\<open>request_id()\<close>), prefixed by the message they belong to. Versions are 64-bit in
  the source (\<^verbatim>\<open>int64_t\<close> in \<^verbatim>\<open>mServerYamlConfigVersionMap\<close>); no arithmetic is done
  on them, they are only printed, so \<open>int\<close> carries them.
\<close>

record ConfigCheckResult =
  cr_name :: string
  cr_check_status :: CheckStatus
  cr_old_version :: int
  cr_new_version :: int
  cr_context :: string

record ConfigDetail =
  cd_name :: string
  cd_version :: int
  cd_context :: string
  cd_detail :: string

record ConfigInfo =
  ci_name :: string
  ci_version :: int
  ci_context :: string

text \<open>Modelled from the spec: \<^verbatim>\<open>CheckUpdateStat\<close> is declared outside the source file;
  the source uses its values NORMAL and UPDATE_CONFIG.\<close>

datatype CheckUpdateStat = NORMAL | UPDATE_CONFIG

subsection \<open>The decimal printer \<^verbatim>\<open>std::to_string\<close>\<close>

fun digits :: "nat \<Rightarrow> string" where
  "digits n = (if n < 10 then [''0123456789'' ! n]
               else digits (n div 10) @ [''0123456789'' ! (n mod 10)])"

declare digits.simps [simp del]

definition to_string :: "int \<Rightarrow> string" where
  "to_string i = (if i < 0 then CHR ''-'' # digits (nat (- i)) else digits (nat i))"

subsection \<open>C strings\<close>

text \<open>
  \<^verbatim>\<open>std::string::c_str()\<close> hands a C function the bytes up to the first NUL byte.
  \<^verbatim>\<open>strcmp\<close> compares two such byte sequences as unsigned bytes; the source only tests
  its result against 0, and the sign stands for any negative or positive value.
\<close>

definition c_str :: "string \<Rightarrow> string" where
  "c_str s = takeWhile (\<lambda>c. c \<noteq> CHR 0x00) s"

fun strcmp :: "string \<Rightarrow> string \<Rightarrow> int" where
  "strcmp [] [] = 0"
| "strcmp [] (y # ys) = - 1"
| "strcmp (x # xs) [] = 1"
| "strcmp (x # xs) (y # ys) =
     (if x = y then strcmp xs ys else if (of_char x :: nat) < of_char y then - 1 else 1)"

subsection \<open>The agent's local state and the file operations\<close>

text \<open>
  The part of the process state that the remote synchronisation touches: the remote
  configuration directory (\<^verbatim>\<open>serverConfigDirPath\<close>, whether it exists, the regular files
  by path with their content), whether \<^verbatim>\<open>ofstream::open\<close> succeeds on a path, the flag
  cleared by \<^verbatim>\<open>StopUsingConfigServer\<close>, the stored version of each server configuration,
  the update state shared with the dispatcher thread, and the data handed over to that
  thread (the loaded configurations and the handlers to delete; their types are declared
  outside the source file, so they are a type parameter).
\<close>

record 's Agent =
  serverConfigDirPath :: string
  dirExists :: bool
  files :: "string \<rightharpoonup> string"
  can_open :: "string \<Rightarrow> bool"
  configServerAvailable :: bool
  mServerYamlConfigVersionMap :: "string \<rightharpoonup> int"
  mUpdateStat :: CheckUpdateStat
  shared :: 's

text \<open>
  The loop of \<^verbatim>\<open>UpdateRemoteConfig\<close> acts on the disk through two calls:
  \<^verbatim>\<open>remove(path.c_str())\<close>, whose result is ignored (an absent file is left absent), and
  \<^verbatim>\<open>open(path.c_str(), ios::out); << detail; close()\<close>, which creates or truncates the
  file and writes the text, or does nothing when the file cannot be opened.
\<close>

datatype fs_op = Remove string | Write string string

fun exec_op :: "fs_op \<Rightarrow> 's Agent \<Rightarrow> 's Agent" where
  "exec_op (Remove p) a = a\<lparr>files := (files a)(p := None)\<rparr>"
| "exec_op (Write p d) a = (if can_open a p then a\<lparr>files := (files a)(p \<mapsto> d)\<rparr> else a)"

section \<open>UpdateRemoteConfig\<close>

text \<open>
  The variables \<^verbatim>\<open>oldConfigPath\<close> and \<^verbatim>\<open>configDetail\<close> are declared before the loop
  and are assigned only under a condition, so they carry their value from one iteration
  to the next (\<^verbatim>\<open>configName\<close> and \<^verbatim>\<open>newConfigPath\<close> are assigned in every iteration).
\<close>

record Locals =
  oldConfigPath :: string
  configDetail :: ConfigDetail

definition initial_Locals :: Locals where
  "initial_Locals = \<lparr>oldConfigPath = [],
     configDetail = \<lparr>cd_name = [], cd_version = 0, cd_context = [], cd_detail = []\<rparr>\<rparr>"

text \<open>The inner loop over \<^verbatim>\<open>configDetails\<close>: the first entry of that name is copied
  into \<^verbatim>\<open>configDetail\<close>; without one the variable keeps its value.\<close>

fun findDetail :: "string \<Rightarrow> ConfigDetail list \<Rightarrow> ConfigDetail \<Rightarrow> ConfigDetail" where
  "findDetail configName [] cur = cur"
| "findDetail configName (d # ds) cur = (if cd_name d = configName then d else findDetail configName ds cur)"

definition configPath :: "string \<Rightarrow> string \<Rightarrow> int \<Rightarrow> string" where
  "configPath dir configName v = dir @ configName @ ''@'' @ to_string v @ ''.yaml''"

text \<open>The two paths of a check result, as the C functions receive them.\<close>

abbreviation old_file :: "string \<Rightarrow> ConfigCheckResult \<Rightarrow> string" where
  "old_file dir r \<equiv> c_str (configPath dir (cr_name r) (cr_old_version r))"

abbreviation new_file :: "string \<Rightarrow> ConfigCheckResult \<Rightarrow> string" where
  "new_file dir r \<equiv> c_str (configPath dir (cr_name r) (cr_new_version r))"

text \<open>One iteration: the locals after it, and the file operations it issues, in order.\<close>

definition loop_body :: "string \<Rightarrow> ConfigDetail list \<Rightarrow> ConfigCheckResult \<Rightarrow> Locals \<Rightarrow> Locals \<times> fs_op list" where
  "loop_body dir configDetails r l =
     (let configName = cr_name r;
          l1 = (if cr_check_status r \<noteq> NEW
                then l\<lparr>oldConfigPath := configPath dir configName (cr_old_version r)\<rparr> else l);
          l2 = (if cr_check_status r \<noteq> DELETED
                then l1\<lparr>configDetail := findDetail configName configDetails (configDetail l1)\<rparr> else l1);
          newConfigPath = configPath dir configName (cr_new_version r)
      in (l2,
          case cr_check_status r of
            DELETED \<Rightarrow> [Remove (c_str (oldConfigPath l2))]
          | MODIFIED \<Rightarrow> [Remove (c_str (oldConfigPath l2)),
                        Write (c_str newConfigPath) (cd_detail (configDetail l2))]
          | NEW \<Rightarrow> [Write (c_str newConfigPath) (cd_detail (configDetail l2))]
          | UNCHANGED \<Rightarrow> []))"

fun loop_ops :: "string \<Rightarrow> ConfigDetail list \<Rightarrow> ConfigCheckResult list \<Rightarrow> Locals \<Rightarrow> fs_op list" where
  "loop_ops dir configDetails [] l = []"
| "loop_ops dir configDetails (r # rs) l =
     snd (loop_body dir configDetails r l) @ loop_ops dir configDetails rs (fst (loop_body dir configDetails r l))"

fun loop_locals :: "string \<Rightarrow> ConfigDetail list \<Rightarrow> ConfigCheckResult list \<Rightarrow> Locals \<Rightarrow> Locals" where
  "loop_locals dir configDetails [] l = l"
| "loop_locals dir configDetails (r # rs) l =
     loop_locals dir configDetails rs (fst (loop_body dir configDetails r l))"

text \<open>
  \<open>UpdateRemoteConfig_upto k\<close> is the state in which the process is found when it is
  stopped after the first \<open>k\<close> file operations of the loop; \<open>UpdateRemoteConfig\<close> runs them
  all. \<open>res\<close> is the result of \<^verbatim>\<open>create_directories\<close>, read only when the directory does
  not exist; with \<open>res\<close> false the function stops using the config server and returns.
\<close>

definition run_loop ::
  "nat \<Rightarrow> ConfigCheckResult list \<Rightarrow> ConfigDetail list \<Rightarrow> 's Agent \<Rightarrow> 's Agent" where
  "run_loop k checkResults configDetails a =
     fold exec_op
       (take k (loop_ops (serverConfigDirPath a) configDetails checkResults initial_Locals)) a"

definition UpdateRemoteConfig_upto ::
  "nat \<Rightarrow> bool \<Rightarrow> ConfigCheckResult list \<Rightarrow> ConfigDetail list \<Rightarrow> 's Agent \<Rightarrow> 's Agent" where
  "UpdateRemoteConfig_upto k res checkResults configDetails a =
     (if \<not> dirExists a then
        (if \<not> res then a\<lparr>configServerAvailable := False\<rparr>
         else run_loop k checkResults configDetails (a\<lparr>dirExists := True\<rparr>))
      else run_loop k checkResults configDetails a)"

definition UpdateRemoteConfig ::
  "bool \<Rightarrow> ConfigCheckResult list \<Rightarrow> ConfigDetail list \<Rightarrow> 's Agent \<Rightarrow> 's Agent" where
  "UpdateRemoteConfig res checkResults configDetails a =
     UpdateRemoteConfig_upto
       (length (loop_ops (serverConfigDirPath a) configDetails checkResults initial_Locals))
       res checkResults configDetails a"

section \<open>The exchange with the config server\<close>

text \<open>
  Modelled from the spec: the response and request messages are protobuf classes declared
  outside the source file; the fields are the ones the source reads and sets.
\<close>

record HeartBeatResponse =
  hb_request_id :: string
  hb_pipeline_check_results :: "ConfigCheckResult list"

record FetchPipelineConfigResponse =
  fr_request_id :: string
  fr_config_details :: "ConfigDetail list"

record FetchPipelineConfigRequest =
  fq_request_id :: string
  fq_agent_id :: string
  fq_req_configs :: "ConfigInfo list"

text \<open>
  The transport and the service client are collaborators of the source
  (\<^verbatim>\<open>sdk::CurlClient\<close>, \<^verbatim>\<open>ConfigServiceClientBase\<close>): \<^verbatim>\<open>client.Send\<close> either throws
  \<^verbatim>\<open>sdk::LOGException\<close> or fills \<^verbatim>\<open>httpResponse\<close> with a status code and a content;
  \<^verbatim>\<open>FlushCredential\<close> returns a bool. The world holds what the successive calls will meet
  and records the calls made, in order. A call of \<^verbatim>\<open>Send\<close> for which nothing is left
  fails like a transport error, a call of \<^verbatim>\<open>FlushCredential\<close> for which nothing is left
  returns false. The content type \<open>'c\<close> and the two \<^verbatim>\<open>ParseFromString\<close> functions are
  parameters. The request ids are parameters too: the source builds them from
  \<^verbatim>\<open>time(NULL)\<close> with Base64. \<^verbatim>\<open>GenerateHeartBeatRequest\<close> and \<^verbatim>\<open>SignHeader\<close> are
  pure virtual in the source file: the heartbeat request stands for what the first makes
  of the request id, and a call of the second is recorded, the request staying the same
  object.
\<close>

datatype request = HeartBeat string | Fetch FetchPipelineConfigRequest

datatype event = EvSignHeader | EvSend request | EvFlushCredential

datatype 'c http = LOGException | HttpMessage int 'c

record ('s, 'c) World =
  agent :: "'s Agent"
  replies :: "'c http list"
  flushes :: "bool list"
  calls :: "event list"

definition SignHeader :: "('s, 'c) World \<Rightarrow> ('s, 'c) World" where
  "SignHeader w = w\<lparr>calls := calls w @ [EvSignHeader]\<rparr>"

definition client_Send :: "request \<Rightarrow> ('s, 'c) World \<Rightarrow> 'c http \<times> ('s, 'c) World" where
  "client_Send q w =
     (case replies w of
        [] \<Rightarrow> (LOGException, w\<lparr>calls := calls w @ [EvSend q]\<rparr>)
      | h # hs \<Rightarrow> (h, w\<lparr>replies := hs, calls := calls w @ [EvSend q]\<rparr>))"

definition FlushCredential :: "('s, 'c) World \<Rightarrow> bool \<times> ('s, 'c) World" where
  "FlushCredential w =
     (case flushes w of
        [] \<Rightarrow> (False, w\<lparr>calls := calls w @ [EvFlushCredential]\<rparr>)
      | b # bs \<Rightarrow> (b, w\<lparr>flushes := bs, calls := calls w @ [EvFlushCredential]\<rparr>))"

text \<open>The end of \<^verbatim>\<open>SendHeartbeat\<close>: parse the content, compare the request ids with
  \<^verbatim>\<open>strcmp\<close>, return the check results.\<close>

definition heartbeat_results :: "('c \<Rightarrow> HeartBeatResponse) \<Rightarrow> string \<Rightarrow> 'c \<Rightarrow> ConfigCheckResult list" where
  "heartbeat_results parse requestId content =
     (let heartBeatResp = parse content
      in if 0 \<noteq> strcmp (c_str (hb_request_id heartBeatResp)) (c_str requestId) then []
         else hb_pipeline_check_results heartBeatResp)"

definition SendHeartbeat ::
  "('c \<Rightarrow> HeartBeatResponse) \<Rightarrow> string \<Rightarrow> ('s, 'c) World \<Rightarrow> ConfigCheckResult list \<times> ('s, 'c) World" where
  "SendHeartbeat parse requestId w0 =
     (let request = HeartBeat requestId;
          w1 = SignHeader w0;
          (h1, w2) = client_Send request w1
      in case h1 of
           LOGException \<Rightarrow> ([], w2)
         | HttpMessage statusCode content \<Rightarrow>
             if statusCode = 400 \<or> statusCode = 401 \<or> statusCode = 403 then
               (let (ok, w3) = FlushCredential w2
                in if \<not> ok then ([], w3)
                   else (let w4 = SignHeader w3;
                             (h2, w5) = client_Send request w4
                         in case h2 of
                              LOGException \<Rightarrow> ([], w5)
                            | HttpMessage statusCode2 content2 \<Rightarrow>
                                (heartbeat_results parse requestId content2, w5)))
             else (heartbeat_results parse requestId content, w2))"

text \<open>The loop of \<^verbatim>\<open>FetchPipelineConfig\<close> that fills \<^verbatim>\<open>req_configs\<close>.\<close>

fun configInfos :: "ConfigCheckResult list \<Rightarrow> ConfigInfo list" where
  "configInfos [] = []"
| "configInfos (r # rs) =
     (if cr_check_status r \<noteq> DELETED
      then \<lparr>ci_name = cr_name r, ci_version = cr_new_version r, ci_context = cr_context r\<rparr>
             # configInfos rs
      else configInfos rs)"

definition FetchPipelineConfig ::
  "('c \<Rightarrow> FetchPipelineConfigResponse) \<Rightarrow> string \<Rightarrow> string \<Rightarrow> ConfigCheckResult list
     \<Rightarrow> ('s, 'c) World \<Rightarrow> ConfigDetail list \<times> ('s, 'c) World" where
  "FetchPipelineConfig parse instanceId requestID requestConfigs w0 =
     (let fetchConfigReq = \<lparr>fq_request_id = requestID, fq_agent_id = instanceId,
                              fq_req_configs = configInfos requestConfigs\<rparr>;
          (h, w1) = client_Send (Fetch fetchConfigReq) w0
      in case h of
           LOGException \<Rightarrow> ([], w1)
         | HttpMessage statusCode content \<Rightarrow>
             (let fetchConfigResp = parse content
              in if 0 \<noteq> strcmp (c_str (fr_request_id fetchConfigResp)) (c_str requestID) then ([], w1)
                 else (fr_config_details fetchConfigResp, w1)))"

text \<open>
  The block of \<^verbatim>\<open>CheckUpdateThread\<close> run when the config server is available: heartbeat,
  then fetch and apply under the two tests of \<^verbatim>\<open>checkResults.size() > 0\<close>. The
  \<^verbatim>\<open>else\<close> branches only pick another server address and are left out. \<open>res\<close> is the
  result \<^verbatim>\<open>create_directories\<close> would give.
\<close>

definition CheckUpdateThread_sync ::
  "('c \<Rightarrow> HeartBeatResponse) \<Rightarrow> ('c \<Rightarrow> FetchPipelineConfigResponse) \<Rightarrow> string \<Rightarrow> string \<Rightarrow> string
     \<Rightarrow> bool \<Rightarrow> ('s, 'c) World \<Rightarrow> ('s, 'c) World" where
  "CheckUpdateThread_sync parseHB parseFetch instanceId heartbeatId fetchId res w0 =
     (let (checkResults, w1) = SendHeartbeat parseHB heartbeatId w0
      in if length checkResults > 0 then
           (let (configDetails, w2) = FetchPipelineConfig parseFetch instanceId fetchId checkResults w1
            in if length checkResults > 0
               then w2\<lparr>agent := UpdateRemoteConfig res checkResults configDetails (agent w2)\<rparr>
               else w2)
         else w1)"

section \<open>The update state shared with the dispatcher thread\<close>

definition StartUpdateConfig :: "'s Agent \<Rightarrow> 's Agent" where
  "StartUpdateConfig a = a\<lparr>mUpdateStat := UPDATE_CONFIG\<rparr>"

definition FinishUpdateConfig :: "'s Agent \<Rightarrow> 's Agent" where
  "FinishUpdateConfig a = a\<lparr>mUpdateStat := NORMAL\<rparr>"

definition IsUpdate :: "'s Agent \<Rightarrow> bool" where
  "IsUpdate a = (mUpdateStat a \<noteq> NORMAL)"

definition IsUpdateConfig :: "'s Agent \<Rightarrow> bool" where
  "IsUpdateConfig a = (mUpdateStat a = UPDATE_CONFIG)"

text \<open>
  The end of a cycle of \<^verbatim>\<open>CheckUpdateThread\<close> (source lines 756 to 765), one step per
  read or write of the shared state, so that steps of the dispatcher thread can fall
  between them. The labels are the places of the check thread:
  \<open>AtFirstTest\<close> before \<^verbatim>\<open>if (!IsUpdate())\<close>, \<open>AtDeleteHandlers\<close> before
  \<^verbatim>\<open>DeleteHandlers()\<close>, \<open>AtSecondTest\<close> before the left operand of
  \<^verbatim>\<open>!IsUpdate() && GetLocalConfigUpdate()\<close>, \<open>AtGetLocalConfigUpdate\<close> before its
  right operand, \<open>AtStartUpdateConfig\<close> before \<^verbatim>\<open>StartUpdateConfig()\<close>, \<open>AtCycleEnd\<close>
  after the statement.

  \<^verbatim>\<open>DeleteHandlers\<close> and \<^verbatim>\<open>GetLocalConfigUpdate\<close> are declared in the source file and
  defined outside it: they are parameters, acting on the shared data
  (\<^verbatim>\<open>GetLocalConfigUpdate\<close> reads the files and says whether anything changed).
  Modelled from the spec: the dispatcher thread, when it observes \<^verbatim>\<open>IsUpdateConfig()\<close>,
  works on the shared data and then calls \<^verbatim>\<open>FinishUpdateConfig\<close>. Between two cycles
  the check thread may run \<^verbatim>\<open>UpdateRemoteConfig\<close>.
\<close>

datatype place = AtFirstTest | AtDeleteHandlers | AtSecondTest | AtGetLocalConfigUpdate
  | AtStartUpdateConfig | AtCycleEnd

inductive check_step ::
  "('s \<Rightarrow> 's) \<Rightarrow> ((string \<rightharpoonup> string) \<Rightarrow> 's \<Rightarrow> bool \<times> 's) \<Rightarrow> place \<times> 's Agent \<Rightarrow> place \<times> 's Agent \<Rightarrow> bool"
  for DeleteHandlers :: "'s \<Rightarrow> 's"
  and GetLocalConfigUpdate :: "(string \<rightharpoonup> string) \<Rightarrow> 's \<Rightarrow> bool \<times> 's"
where
  first_test_normal:
    "\<not> IsUpdate a \<Longrightarrow>
     check_step DeleteHandlers GetLocalConfigUpdate (AtFirstTest, a) (AtDeleteHandlers, a)"
| first_test_update:
    "IsUpdate a \<Longrightarrow>
     check_step DeleteHandlers GetLocalConfigUpdate (AtFirstTest, a) (AtSecondTest, a)"
| delete_handlers:
    "check_step DeleteHandlers GetLocalConfigUpdate
       (AtDeleteHandlers, a) (AtSecondTest, a\<lparr>shared := DeleteHandlers (shared a)\<rparr>)"
| second_test_normal:
    "\<not> IsUpdate a \<Longrightarrow>
     check_step DeleteHandlers GetLocalConfigUpdate (AtSecondTest, a) (AtGetLocalConfigUpdate, a)"
| second_test_update:
    "IsUpdate a \<Longrightarrow>
     check_step DeleteHandlers GetLocalConfigUpdate (AtSecondTest, a) (AtCycleEnd, a)"
| get_local_config_update:
    "GetLocalConfigUpdate (files a) (shared a) = (changed, s') \<Longrightarrow>
     check_step DeleteHandlers GetLocalConfigUpdate (AtGetLocalConfigUpdate, a)
       (if changed then AtStartUpdateConfig else AtCycleEnd, a\<lparr>shared := s'\<rparr>)"
| start_update_config:
    "check_step DeleteHandlers GetLocalConfigUpdate
       (AtStartUpdateConfig, a) (AtCycleEnd, StartUpdateConfig a)"
| next_cycle:
    "check_step DeleteHandlers GetLocalConfigUpdate (AtCycleEnd, a) (AtFirstTest, a)"
| next_cycle_after_sync:
    "check_step DeleteHandlers GetLocalConfigUpdate
       (AtCycleEnd, a) (AtFirstTest, UpdateRemoteConfig res checkResults configDetails a)"

inductive dispatcher_step :: "place \<times> 's Agent \<Rightarrow> place \<times> 's Agent \<Rightarrow> bool" where
  apply_batch: "IsUpdateConfig a \<Longrightarrow> dispatcher_step (p, a) (p, a\<lparr>shared := s'\<rparr>)"
| finish: "IsUpdateConfig a \<Longrightarrow> dispatcher_step (p, a) (p, FinishUpdateConfig a)"

text \<open>The states of a run of the two threads that starts at the top of a cycle.\<close>

inductive reachable ::
  "('s \<Rightarrow> 's) \<Rightarrow> ((string \<rightharpoonup> string) \<Rightarrow> 's \<Rightarrow> bool \<times> 's) \<Rightarrow> place \<times> 's Agent \<Rightarrow> bool"
  for DeleteHandlers :: "'s \<Rightarrow> 's"
  and GetLocalConfigUpdate :: "(string \<rightharpoonup> string) \<Rightarrow> 's \<Rightarrow> bool \<times> 's"
where
  start: "reachable DeleteHandlers GetLocalConfigUpdate (AtFirstTest, a)"
| check: "reachable DeleteHandlers GetLocalConfigUpdate c
          \<Longrightarrow> check_step DeleteHandlers GetLocalConfigUpdate c c'
          \<Longrightarrow> reachable DeleteHandlers GetLocalConfigUpdate c'"
| dispatch: "reachable DeleteHandlers GetLocalConfigUpdate c
          \<Longrightarrow> dispatcher_step c c'
          \<Longrightarrow> reachable DeleteHandlers GetLocalConfigUpdate c'"

section \<open>Access keys\<close>



text \<open>
  Modelled from the spec: \<^verbatim>\<open>GetUserAK\<close> and \<^verbatim>\<open>SetUserAK\<close> are declared in the source file
  and defined outside it, as is \<^verbatim>\<open>UserInfo\<close>. After the spec's credential record
  (accountId, accessKeyId, accessKey, lastUpdateTime): \<^verbatim>\<open>GetUserAK\<close> reads the record of
  the account and returns its last update time, as the \<^verbatim>\<open>int32_t\<close> of its declaration;
  \<^verbatim>\<open>SetUserAK\<close> stores the two keys and stamps the record with the time of the call,
  kept in 32 bits. \<^verbatim>\<open>mUserInfos\<close> gives every account a record.
\<close>

record UserInfo =
  accessKeyId :: string
  accessKey :: string
  updateTime :: int




section \<open>Concrete inputs\<close>

text \<open>The shared data of the concrete agents is a list of configuration names.\<close>

definition agent_a1 :: "string list Agent" where
  "agent_a1 = \<lparr>serverConfigDirPath = ''/conf/'', dirExists = True,
       files = [''/conf/a@1.yaml'' \<mapsto> ''v1''], can_open = (\<lambda>p. True),
       configServerAvailable = True, mServerYamlConfigVersionMap = [''a'' \<mapsto> 1],
       mUpdateStat = NORMAL, shared = []\<rparr>"

definition agent_a12 :: "string list Agent" where
  "agent_a12 = \<lparr>serverConfigDirPath = ''/conf/'', dirExists = True,
       files = [''/conf/a@1.yaml'' \<mapsto> ''v1'', ''/conf/a@2.yaml'' \<mapsto> ''v2''],
       can_open = (\<lambda>p. True),
       configServerAvailable = True, mServerYamlConfigVersionMap = [''a'' \<mapsto> 2],
       mUpdateStat = NORMAL, shared = []\<rparr>"

definition agent_empty :: "string list Agent" where
  "agent_empty = \<lparr>serverConfigDirPath = ''/conf/'', dirExists = True,
       files = Map.empty, can_open = (\<lambda>p. True),
       configServerAvailable = True, mServerYamlConfigVersionMap = Map.empty,
       mUpdateStat = NORMAL, shared = []\<rparr>"

definition modified_a_1_2 :: ConfigCheckResult where
  "modified_a_1_2 = \<lparr>cr_name = ''a'', cr_check_status = MODIFIED,
       cr_old_version = 1, cr_new_version = 2, cr_context = []\<rparr>"

definition deleted_a_1 :: ConfigCheckResult where
  "deleted_a_1 = \<lparr>cr_name = ''a'', cr_check_status = DELETED,
       cr_old_version = 1, cr_new_version = 0, cr_context = []\<rparr>"

definition unchanged_a_1 :: ConfigCheckResult where
  "unchanged_a_1 = \<lparr>cr_name = ''a'', cr_check_status = UNCHANGED,
       cr_old_version = 1, cr_new_version = 1, cr_context = []\<rparr>"

definition new_a_1 :: ConfigCheckResult where
  "new_a_1 = \<lparr>cr_name = ''a'', cr_check_status = NEW,
       cr_old_version = 0, cr_new_version = 1, cr_context = []\<rparr>"

definition new_b_1 :: ConfigCheckResult where
  "new_b_1 = \<lparr>cr_name = ''b'', cr_check_status = NEW,
       cr_old_version = 0, cr_new_version = 1, cr_context = []\<rparr>"

definition detail_a_1 :: ConfigDetail where
  "detail_a_1 = \<lparr>cd_name = ''a'', cd_version = 1, cd_context = [], cd_detail = ''text of a''\<rparr>"

definition detail_a_2 :: ConfigDetail where
  "detail_a_2 = \<lparr>cd_name = ''a'', cd_version = 2, cd_context = [], cd_detail = ''new text''\<rparr>"

text \<open>A content that is one of the two responses or an error page, with the parsers
  that read it; a content of the other kind parses to the empty message.\<close>

datatype content = HeartBeatContent HeartBeatResponse | FetchContent FetchPipelineConfigResponse
  | ErrorPage

fun parseHeartBeat :: "content \<Rightarrow> HeartBeatResponse" where
  "parseHeartBeat (HeartBeatContent r) = r"
| "parseHeartBeat _ = \<lparr>hb_request_id = [], hb_pipeline_check_results = []\<rparr>"

fun parseFetch :: "content \<Rightarrow> FetchPipelineConfigResponse" where
  "parseFetch (FetchContent r) = r"
| "parseFetch _ = \<lparr>fr_request_id = [], fr_config_details = []\<rparr>"

definition world :: "content http list \<Rightarrow> bool list \<Rightarrow> (string list, content) World" where
  "world rs fs = \<lparr>agent = agent_a1, replies = rs, flushes = fs, calls = []\<rparr>"

definition users0 :: "string \<Rightarrow> UserInfo" where
  "users0 = (\<lambda>aliuid. \<lparr>accessKeyId = ''id'', accessKey = ''key'', updateTime = 1000\<rparr>)"

text \<open>A \<^verbatim>\<open>GetLocalConfigUpdate\<close> that finds the configuration \<open>a\<close> changed, and the agent
  once that batch is assembled.\<close>

definition getLocal :: "(string \<rightharpoonup> string) \<Rightarrow> string list \<Rightarrow> bool \<times> string list" where
  "getLocal fs s = (True, ''a'' # s)"

definition agent_ready :: "string list Agent" where
  "agent_ready = agent_a1\<lparr>shared := [''a'']\<rparr>"

section \<open>Properties of DoubleBuffer\<close>

lemma DoubleBuffer_instance_inv:
  "DoubleBuffer_instance b \<Longrightarrow> (currentBuffer b = 0 \<or> currentBuffer b = 1) \<and> length (buffers b) = 2"
  by (induction rule: DoubleBuffer_instance.induct)
     (auto simp: DoubleBuffer_ctor_def swap_def assign_def)

text \<open>
  Claim C10. For every DoubleBuffer instance, the write reference and the read reference
  designate two different slots of the array, both inside it; \<open>swap\<close> exchanges the two,
  and two consecutive calls of \<open>swap\<close> give back the instance unchanged.
\<close>

theorem DoubleBuffer_distinct_and_swap_involution:
  assumes "DoubleBuffer_instance b"
  shows "getWriteBuffer b \<noteq> getReadBuffer b
       \<and> slot b (getWriteBuffer b) \<noteq> None \<and> slot b (getReadBuffer b) \<noteq> None
       \<and> getWriteBuffer (swap b) = getReadBuffer b
       \<and> getReadBuffer (swap b) = getWriteBuffer b
       \<and> swap (swap b) = b"
proof -
  from assms have inv: "(currentBuffer b = 0 \<or> currentBuffer b = 1) \<and> length (buffers b) = 2"
    by (rule DoubleBuffer_instance_inv)
  then have idx: "currentBuffer b = 0 \<or> currentBuffer b = 1" and len: "length (buffers b) = 2"
    by simp_all
  from idx show ?thesis
  proof
    assume "currentBuffer b = 0"
    with len show ?thesis
      by (simp add: getWriteBuffer_def getReadBuffer_def swap_def slot_def)
  next
    assume "currentBuffer b = 1"
    with len show ?thesis
      by (simp add: getWriteBuffer_def getReadBuffer_def swap_def slot_def)
  qed
qed

theorem DoubleBuffer_distinct_and_swap_involution_witness:
  "DoubleBuffer_instance (swap (DoubleBuffer_ctor (10::nat) 20))
   \<and> getWriteBuffer (swap (DoubleBuffer_ctor (10::nat) 20)) = 1
   \<and> getReadBuffer (swap (DoubleBuffer_ctor (10::nat) 20)) = 0
   \<and> slot (swap (DoubleBuffer_ctor (10::nat) 20)) 1 = Some 20
   \<and> swap (swap (swap (DoubleBuffer_ctor (10::nat) 20))) = swap (DoubleBuffer_ctor (10::nat) 20)"
proof -
  have r: "DoubleBuffer_instance (swap (DoubleBuffer_ctor (10::nat) 20))"
    by (rule DoubleBuffer_instance.swapped) (rule DoubleBuffer_instance.ctor)
  from DoubleBuffer_distinct_and_swap_involution [OF r] r show ?thesis
    by (simp add: getWriteBuffer_def getReadBuffer_def swap_def slot_def DoubleBuffer_ctor_def)
qed

section \<open>Evaluation on concrete inputs\<close>

lemmas inputs_defs = agent_a1_def agent_a12_def agent_empty_def modified_a_1_2_def deleted_a_1_def
  unchanged_a_1_def new_a_1_def new_b_1_def detail_a_1_def detail_a_2_def world_def users0_def

lemmas eval_defs = UpdateRemoteConfig_def UpdateRemoteConfig_upto_def run_loop_def loop_body_def
  configPath_def to_string_def digits.simps initial_Locals_def Let_def c_str_def

section \<open>Properties of UpdateRemoteConfig\<close>

lemma exec_op_frame:
  "serverConfigDirPath (exec_op op a) = serverConfigDirPath a"
  "dirExists (exec_op op a) = dirExists a"
  "can_open (exec_op op a) = can_open a"
  "configServerAvailable (exec_op op a) = configServerAvailable a"
  "mServerYamlConfigVersionMap (exec_op op a) = mServerYamlConfigVersionMap a"
  "mUpdateStat (exec_op op a) = mUpdateStat a"
  "shared (exec_op op a) = shared a"
  by (cases op; simp)+

lemma fold_exec_op_frame:
  "serverConfigDirPath (fold exec_op ops a) = serverConfigDirPath a"
  "dirExists (fold exec_op ops a) = dirExists a"
  "can_open (fold exec_op ops a) = can_open a"
  "configServerAvailable (fold exec_op ops a) = configServerAvailable a"
  "mServerYamlConfigVersionMap (fold exec_op ops a) = mServerYamlConfigVersionMap a"
  "mUpdateStat (fold exec_op ops a) = mUpdateStat a"
  "shared (fold exec_op ops a) = shared a"
  by (induction ops arbitrary: a; simp add: exec_op_frame)+

lemma run_loop_frame:
  "serverConfigDirPath (run_loop k rs ds a) = serverConfigDirPath a"
  "dirExists (run_loop k rs ds a) = dirExists a"
  "can_open (run_loop k rs ds a) = can_open a"
  "configServerAvailable (run_loop k rs ds a) = configServerAvailable a"
  "mServerYamlConfigVersionMap (run_loop k rs ds a) = mServerYamlConfigVersionMap a"
  "mUpdateStat (run_loop k rs ds a) = mUpdateStat a"
  "shared (run_loop k rs ds a) = shared a"
  by (simp_all add: run_loop_def fold_exec_op_frame)

lemma UpdateRemoteConfig_frame:
  "mServerYamlConfigVersionMap (UpdateRemoteConfig res rs ds a) = mServerYamlConfigVersionMap a"
  "mUpdateStat (UpdateRemoteConfig res rs ds a) = mUpdateStat a"
  "shared (UpdateRemoteConfig res rs ds a) = shared a"
  by (simp_all add: UpdateRemoteConfig_def UpdateRemoteConfig_upto_def run_loop_frame)

lemma exec_op_versionMap_update:
  "exec_op op (a\<lparr>mServerYamlConfigVersionMap := m\<rparr>) = (exec_op op a)\<lparr>mServerYamlConfigVersionMap := m\<rparr>"
  by (cases op) simp_all

lemma fold_exec_op_versionMap_update:
  "fold exec_op ops (a\<lparr>mServerYamlConfigVersionMap := m\<rparr>) = (fold exec_op ops a)\<lparr>mServerYamlConfigVersionMap := m\<rparr>"
  by (induction ops arbitrary: a) (simp_all add: exec_op_versionMap_update)

lemma loop_ops_append:
  "loop_ops dir ds (rs1 @ rs2) l = loop_ops dir ds rs1 l @ loop_ops dir ds rs2 (loop_locals dir ds rs1 l)"
  by (induction rs1 arbitrary: l) simp_all

lemma loop_locals_append:
  "loop_locals dir ds (rs1 @ rs2) l = loop_locals dir ds rs2 (loop_locals dir ds rs1 l)"
  by (induction rs1 arbitrary: l) simp_all

lemma loop_body_MODIFIED:
  "cr_check_status r = MODIFIED \<Longrightarrow>
   snd (loop_body dir ds r l) =
     [Remove (old_file dir r),
      Write (new_file dir r) (cd_detail (findDetail (cr_name r) ds (configDetail l)))]"
  by (simp add: loop_body_def Let_def)

lemma loop_body_DELETED:
  "cr_check_status r = DELETED \<Longrightarrow> snd (loop_body dir ds r l) = [Remove (old_file dir r)]"
  by (simp add: loop_body_def Let_def)

lemma loop_body_NEW:
  "cr_check_status r = NEW \<Longrightarrow>
   snd (loop_body dir ds r l) =
     [Write (new_file dir r) (cd_detail (findDetail (cr_name r) ds (configDetail l)))]"
  by (simp add: loop_body_def Let_def)

lemma findDetail_found:
  "\<exists>d \<in> set ds. cd_name d = n \<Longrightarrow>
   findDetail n ds cur \<in> set ds \<and> cd_name (findDetail n ds cur) = n"
  by (induction ds) auto

lemma findDetail_not_found:
  "\<forall>d \<in> set ds. cd_name d \<noteq> n \<Longrightarrow> findDetail n ds cur = cur"
  by (induction ds) auto

text \<open>
  Claim C1, as amended. For every apply of a MODIFIED check result, wherever it stands in
  the list, the loop first removes the file of the old version and only then writes the
  file of the new version. A process stopped between the two steps has no file of the
  old version; after the second step the file of the new version holds the detail,
  provided it could be opened.
\<close>

theorem MODIFIED_removes_old_before_writing_new:
  assumes "cr_check_status r = MODIFIED" and "dirExists a \<or> res"
  shows "loop_ops (serverConfigDirPath a) ds (rs1 @ r # rs2) initial_Locals =
           loop_ops (serverConfigDirPath a) ds rs1 initial_Locals
           @ [Remove (old_file (serverConfigDirPath a) r),
              Write (new_file (serverConfigDirPath a) r)
                (cd_detail (findDetail (cr_name r) ds
                   (configDetail (loop_locals (serverConfigDirPath a) ds rs1 initial_Locals))))]
           @ loop_ops (serverConfigDirPath a) ds rs2
               (loop_locals (serverConfigDirPath a) ds (rs1 @ [r]) initial_Locals)
       \<and> files (UpdateRemoteConfig_upto
                 (length (loop_ops (serverConfigDirPath a) ds rs1 initial_Locals) + 1)
                 res (rs1 @ r # rs2) ds a)
           (old_file (serverConfigDirPath a) r) = None
       \<and> (can_open a (new_file (serverConfigDirPath a) r) \<longrightarrow>
          files (UpdateRemoteConfig_upto
                 (length (loop_ops (serverConfigDirPath a) ds rs1 initial_Locals) + 2)
                 res (rs1 @ r # rs2) ds a)
            (new_file (serverConfigDirPath a) r)
          = Some (cd_detail (findDetail (cr_name r) ds
                   (configDetail (loop_locals (serverConfigDirPath a) ds rs1 initial_Locals)))))"
proof -
  let ?dir = "serverConfigDirPath a"
  let ?pre = "loop_ops ?dir ds rs1 initial_Locals"
  let ?l = "loop_locals ?dir ds rs1 initial_Locals"
  let ?old = "old_file ?dir r"
  let ?new = "new_file ?dir r"
  let ?d = "cd_detail (findDetail (cr_name r) ds (configDetail ?l))"
  let ?post = "loop_ops ?dir ds rs2 (loop_locals ?dir ds (rs1 @ [r]) initial_Locals)"
  let ?a' = "a\<lparr>dirExists := True\<rparr>"
  have ops: "loop_ops ?dir ds (rs1 @ r # rs2) initial_Locals = ?pre @ [Remove ?old, Write ?new ?d] @ ?post"
    using assms(1) by (simp add: loop_ops_append loop_locals_append loop_body_MODIFIED)
  have upto: "UpdateRemoteConfig_upto k res (rs1 @ r # rs2) ds a
                = fold exec_op (take k (?pre @ [Remove ?old, Write ?new ?d] @ ?post)) ?a'" for k
  proof (cases "dirExists a")
    case True
    then have same: "?a' = a" by simp
    from True show ?thesis
      by (simp add: UpdateRemoteConfig_upto_def run_loop_def ops same)
  next
    case False
    with assms(2) show ?thesis
      by (simp add: UpdateRemoteConfig_upto_def run_loop_def ops)
  qed
  have one: "files (fold exec_op (take (length ?pre + 1) (?pre @ [Remove ?old, Write ?new ?d] @ ?post)) ?a') ?old = None"
    by simp
  have two: "can_open a ?new \<Longrightarrow>
      files (fold exec_op (take (length ?pre + 2) (?pre @ [Remove ?old, Write ?new ?d] @ ?post)) ?a') ?new = Some ?d"
    by (simp add: exec_op_frame fold_exec_op_frame)
  from ops one two show ?thesis
    unfolding upto by blast
qed

theorem MODIFIED_removes_old_before_writing_new_witness:
  "cr_check_status modified_a_1_2 = MODIFIED \<and> dirExists agent_a1
   \<and> can_open agent_a1 ''/conf/a@2.yaml''
   \<and> loop_ops ''/conf/'' [detail_a_2] [modified_a_1_2] initial_Locals
       = [Remove ''/conf/a@1.yaml'', Write ''/conf/a@2.yaml'' ''new text'']
   \<and> files (UpdateRemoteConfig_upto 1 False [modified_a_1_2] [detail_a_2] agent_a1) ''/conf/a@1.yaml'' = None
   \<and> files (UpdateRemoteConfig_upto 2 False [modified_a_1_2] [detail_a_2] agent_a1) ''/conf/a@2.yaml''
       = Some ''new text''"
  using MODIFIED_removes_old_before_writing_new
          [of modified_a_1_2 agent_a1 False "[detail_a_2]" "[]" "[]"]
  by (simp add: inputs_defs configPath_def to_string_def digits.simps initial_Locals_def
                numeral_2_eq_2 c_str_def)

text \<open>
  Claim C1, as stated, fails: the only version file of \<open>a\<close> is \<open>a@1.yaml\<close>; the apply of
  MODIFIED from version 1 to version 2 removes it first, and a process stopped after that
  first step has no version file at all.
\<close>

theorem MODIFIED_interrupted_leaves_no_version_file:
  "files agent_a1 = [''/conf/a@1.yaml'' \<mapsto> ''v1'']
   \<and> loop_ops (serverConfigDirPath agent_a1) [detail_a_2] [modified_a_1_2] initial_Locals
       = [Remove ''/conf/a@1.yaml'', Write ''/conf/a@2.yaml'' ''new text'']
   \<and> files (UpdateRemoteConfig_upto 1 False [modified_a_1_2] [detail_a_2] agent_a1) = Map.empty"
  by (simp add: inputs_defs eval_defs)

text \<open>
  Claim C2, as amended. The apply of a MODIFIED check result does not read the stored
  versions: changing them commutes with \<open>UpdateRemoteConfig\<close>. Whatever the stored version
  is, the apply removes the file of the old version and writes the file of the new one
  (when it can be opened); it leaves the stored versions, the update state and the shared
  data as they are.
\<close>

theorem MODIFIED_ignores_stored_version:
  assumes "cr_check_status r = MODIFIED" and "dirExists a \<or> res"
  shows "UpdateRemoteConfig res rs ds (a\<lparr>mServerYamlConfigVersionMap := m\<rparr>)
           = (UpdateRemoteConfig res rs ds a)\<lparr>mServerYamlConfigVersionMap := m\<rparr>
       \<and> mServerYamlConfigVersionMap (UpdateRemoteConfig res [r] ds a) = mServerYamlConfigVersionMap a
       \<and> mUpdateStat (UpdateRemoteConfig res [r] ds a) = mUpdateStat a
       \<and> shared (UpdateRemoteConfig res [r] ds a) = shared a
       \<and> files (UpdateRemoteConfig res [r] ds a)
           = (if can_open a (new_file (serverConfigDirPath a) r)
              then ((files a)(old_file (serverConfigDirPath a) r := None))
                     (new_file (serverConfigDirPath a) r \<mapsto>
                        cd_detail (findDetail (cr_name r) ds (configDetail initial_Locals)))
              else (files a)(old_file (serverConfigDirPath a) r := None))"
proof -
  have indep: "UpdateRemoteConfig res rs ds (a\<lparr>mServerYamlConfigVersionMap := m\<rparr>)
           = (UpdateRemoteConfig res rs ds a)\<lparr>mServerYamlConfigVersionMap := m\<rparr>"
  proof -
    have swap_updates: "a\<lparr>mServerYamlConfigVersionMap := m, dirExists := True\<rparr>
                          = a\<lparr>dirExists := True, mServerYamlConfigVersionMap := m\<rparr>"
      by simp
    show ?thesis
      by (simp add: UpdateRemoteConfig_def UpdateRemoteConfig_upto_def run_loop_def swap_updates
                    fold_exec_op_versionMap_update)
  qed
  have fs: "files (UpdateRemoteConfig res [r] ds a)
           = (if can_open a (new_file (serverConfigDirPath a) r)
              then ((files a)(old_file (serverConfigDirPath a) r := None))
                     (new_file (serverConfigDirPath a) r \<mapsto>
                        cd_detail (findDetail (cr_name r) ds (configDetail initial_Locals)))
              else (files a)(old_file (serverConfigDirPath a) r := None))"
    using assms
    by (auto simp add: UpdateRemoteConfig_def UpdateRemoteConfig_upto_def run_loop_def loop_body_MODIFIED)
  from indep fs show ?thesis by (simp add: UpdateRemoteConfig_frame)
qed

theorem MODIFIED_ignores_stored_version_witness:
  "cr_check_status modified_a_1_2 = MODIFIED \<and> dirExists agent_a12
   \<and> mServerYamlConfigVersionMap agent_a12 ''a'' = Some (cr_new_version modified_a_1_2)
   \<and> files (UpdateRemoteConfig False [modified_a_1_2] [detail_a_2] agent_a12)
       = [''/conf/a@2.yaml'' \<mapsto> ''new text'']
   \<and> mServerYamlConfigVersionMap (UpdateRemoteConfig False [modified_a_1_2] [detail_a_2] agent_a12) ''a''
       = Some 2"
  using MODIFIED_ignores_stored_version
          [of modified_a_1_2 agent_a12 False "[]" "[detail_a_2]" Map.empty]
  by (auto simp add: inputs_defs configPath_def to_string_def digits.simps initial_Locals_def c_str_def)

text \<open>
  Claim C2, as stated, fails: the stored version of \<open>a\<close> is 2 and the check result asks
  for version 2, yet the apply removes \<open>a@1.yaml\<close> and rewrites \<open>a@2.yaml\<close>.
\<close>

theorem MODIFIED_same_version_is_not_a_noop:
  "mServerYamlConfigVersionMap agent_a12 ''a'' = Some (cr_new_version modified_a_1_2)
   \<and> cr_check_status modified_a_1_2 = MODIFIED
   \<and> files agent_a12 ''/conf/a@1.yaml'' = Some ''v1''
   \<and> files agent_a12 ''/conf/a@2.yaml'' = Some ''v2''
   \<and> files (UpdateRemoteConfig False [modified_a_1_2] [detail_a_2] agent_a12) ''/conf/a@1.yaml'' = None
   \<and> files (UpdateRemoteConfig False [modified_a_1_2] [detail_a_2] agent_a12) ''/conf/a@2.yaml''
       = Some ''new text''
   \<and> UpdateRemoteConfig False [modified_a_1_2] [detail_a_2] agent_a12 \<noteq> agent_a12"
proof -
  have 1: "files (UpdateRemoteConfig False [modified_a_1_2] [detail_a_2] agent_a12) ''/conf/a@1.yaml'' = None"
    by (simp add: inputs_defs eval_defs)
  have 2: "files agent_a12 ''/conf/a@1.yaml'' = Some ''v1''"
    by (simp add: inputs_defs)
  from 1 2 have 3: "UpdateRemoteConfig False [modified_a_1_2] [detail_a_2] agent_a12 \<noteq> agent_a12"
    by auto
  have 4: "files (UpdateRemoteConfig False [modified_a_1_2] [detail_a_2] agent_a12) ''/conf/a@2.yaml''
       = Some ''new text''"
    by (simp add: inputs_defs eval_defs)
  have 5: "mServerYamlConfigVersionMap agent_a12 ''a'' = Some (cr_new_version modified_a_1_2)
      \<and> cr_check_status modified_a_1_2 = MODIFIED \<and> files agent_a12 ''/conf/a@2.yaml'' = Some ''v2''"
    by (simp add: inputs_defs)
  from 1 2 3 4 5 show ?thesis by blast
qed

text \<open>
  Claim C8. Applying a DELETED check result a second time, right after a first apply that
  ran (the directory existed or was created), changes nothing: the second call gives back
  the state the first one left. The model has no error value for \<open>remove\<close>: its result
  is ignored in the source.
\<close>

theorem DELETED_twice_is_idempotent:
  assumes "cr_check_status r = DELETED" and "dirExists a \<or> res"
  shows "UpdateRemoteConfig res' [r] ds' (UpdateRemoteConfig res [r] ds a) = UpdateRemoteConfig res [r] ds a"
proof -
  let ?old = "old_file (serverConfigDirPath a) r"
  have first: "UpdateRemoteConfig res [r] ds a = exec_op (Remove ?old) (a\<lparr>dirExists := True\<rparr>)"
  proof (cases "dirExists a")
    case True
    then have "a\<lparr>dirExists := True\<rparr> = a" by simp
    with True assms(1) show ?thesis
      by (simp add: UpdateRemoteConfig_def UpdateRemoteConfig_upto_def run_loop_def loop_body_DELETED)
  next
    case False
    with assms show ?thesis
      by (simp add: UpdateRemoteConfig_def UpdateRemoteConfig_upto_def run_loop_def loop_body_DELETED)
  qed
  have second: "UpdateRemoteConfig res' [r] ds' (exec_op (Remove ?old) (a\<lparr>dirExists := True\<rparr>))
                  = exec_op (Remove ?old) (a\<lparr>dirExists := True\<rparr>)"
    using assms(1)
    by (simp add: UpdateRemoteConfig_def UpdateRemoteConfig_upto_def run_loop_def loop_body_DELETED)
  from first second show ?thesis by simp
qed

theorem DELETED_twice_is_idempotent_witness:
  "cr_check_status deleted_a_1 = DELETED \<and> dirExists agent_a1
   \<and> files agent_a1 = [''/conf/a@1.yaml'' \<mapsto> ''v1'']
   \<and> files (UpdateRemoteConfig False [deleted_a_1] [] agent_a1) = Map.empty
   \<and> UpdateRemoteConfig False [deleted_a_1] [] (UpdateRemoteConfig False [deleted_a_1] [] agent_a1)
       = UpdateRemoteConfig False [deleted_a_1] [] agent_a1"
  using DELETED_twice_is_idempotent [of deleted_a_1 agent_a1 False False "[]" "[]"]
  by (simp add: inputs_defs eval_defs)

text \<open>
  Claim C9 at a failing input: the check results announce the new configurations \<open>a\<close> and
  \<open>b\<close>, the fetch response holds a detail for \<open>a\<close> only. The file of \<open>b\<close> is written all
  the same, with the detail of \<open>a\<close> left in \<open>configDetail\<close> by the iteration before.
\<close>

theorem NEW_without_detail_gets_previous_detail:
  "files (UpdateRemoteConfig False [new_a_1, new_b_1] [detail_a_1] agent_empty)
     = [''/conf/a@1.yaml'' \<mapsto> ''text of a'', ''/conf/b@1.yaml'' \<mapsto> ''text of a'']"
  by (simp add: inputs_defs eval_defs)

section \<open>Properties of the exchange with the config server\<close>

lemma strcmp_0_iff: "strcmp a b = 0 \<longleftrightarrow> a = b"
  by (induction a b rule: strcmp.induct) auto

lemma heartbeat_results_mismatch:
  "c_str (hb_request_id (parse c)) \<noteq> c_str requestId \<Longrightarrow> heartbeat_results parse requestId c = []"
  by (simp add: heartbeat_results_def strcmp_0_iff)

lemma SendHeartbeat_agent: "agent (snd (SendHeartbeat parse requestId w)) = agent w"
  by (simp add: SendHeartbeat_def SignHeader_def client_Send_def FlushCredential_def Let_def
           split: list.splits http.splits prod.splits)

lemma FetchPipelineConfig_agent: "agent (snd (FetchPipelineConfig parse iid fid rc w)) = agent w"
  by (simp add: FetchPipelineConfig_def client_Send_def Let_def
           split: list.splits http.splits prod.splits)

lemma FetchPipelineConfig_calls:
  "calls (snd (FetchPipelineConfig parse iid fid rc w))
     = calls w @ [EvSend (Fetch \<lparr>fq_request_id = fid, fq_agent_id = iid, fq_req_configs = configInfos rc\<rparr>)]"
  by (simp add: FetchPipelineConfig_def client_Send_def Let_def
           split: list.splits http.splits prod.splits)

lemma FetchPipelineConfig_flushes: "flushes (snd (FetchPipelineConfig parse iid fid rc w)) = flushes w"
  by (simp add: FetchPipelineConfig_def client_Send_def Let_def
           split: list.splits http.splits prod.splits)

lemma configInfos_filter:
  "configInfos rs =
     map (\<lambda>r. \<lparr>ci_name = cr_name r, ci_version = cr_new_version r, ci_context = cr_context r\<rparr>)
         (filter (\<lambda>r. cr_check_status r \<noteq> DELETED) rs)"
  by (induction rs) simp_all

lemma sync_empty: 
  "fst (SendHeartbeat parseHB hid w) = [] \<Longrightarrow>
   CheckUpdateThread_sync parseHB parseF iid hid fid res w = snd (SendHeartbeat parseHB hid w)"
  by (cases "SendHeartbeat parseHB hid w") (simp add: CheckUpdateThread_sync_def)

text \<open>
  Claim C4, as amended. In a cycle the fetch request is sent exactly when the heartbeat
  returned at least one check result, whatever the statuses, and it asks for the names
  and new versions of exactly the results whose status is not DELETED, in their order.
\<close>

theorem sync_fetches_iff_any_result:
  "calls (CheckUpdateThread_sync parseHB parseF iid hid fid res w)
     = calls (snd (SendHeartbeat parseHB hid w))
       @ (if fst (SendHeartbeat parseHB hid w) = [] then []
          else [EvSend (Fetch \<lparr>fq_request_id = fid, fq_agent_id = iid,
                   fq_req_configs =
                     map (\<lambda>r. \<lparr>ci_name = cr_name r, ci_version = cr_new_version r, ci_context = cr_context r\<rparr>)
                         (filter (\<lambda>r. cr_check_status r \<noteq> DELETED) (fst (SendHeartbeat parseHB hid w)))\<rparr>)])"
proof (cases "SendHeartbeat parseHB hid w")
  case (Pair crs w1)
  show ?thesis
  proof (cases "crs = []")
    case True
    with Pair show ?thesis by (simp add: CheckUpdateThread_sync_def)
  next
    case False
    obtain ds w2 where f: "FetchPipelineConfig parseF iid fid crs w1 = (ds, w2)"
      by (cases "FetchPipelineConfig parseF iid fid crs w1")
    from FetchPipelineConfig_calls [of parseF iid fid crs w1] f
    have "calls w2 = calls w1 @ [EvSend (Fetch \<lparr>fq_request_id = fid, fq_agent_id = iid,
                                     fq_req_configs = configInfos crs\<rparr>)]"
      by simp
    with Pair False f show ?thesis
      by (simp add: CheckUpdateThread_sync_def configInfos_filter)
  qed
qed

text \<open>
  Claim C4, as stated, fails: the heartbeat returns one result, of status UNCHANGED; the
  fetch request is sent all the same and asks for that name.
\<close>

theorem UNCHANGED_result_is_fetched:
  "calls (CheckUpdateThread_sync parseHeartBeat parseFetch ''agent'' ''hb'' ''ft'' False
      (world [HttpMessage 200 (HeartBeatContent
                 \<lparr>hb_request_id = ''hb'', hb_pipeline_check_results = [unchanged_a_1]\<rparr>),
              HttpMessage 200 (FetchContent \<lparr>fr_request_id = ''ft'', fr_config_details = []\<rparr>)] []))
   = [EvSignHeader, EvSend (HeartBeat ''hb''),
      EvSend (Fetch \<lparr>fq_request_id = ''ft'', fq_agent_id = ''agent'',
                fq_req_configs = [\<lparr>ci_name = ''a'', ci_version = 1, ci_context = []\<rparr>]\<rparr>)]
   \<and> cr_check_status unchanged_a_1 = UNCHANGED"
  by (simp add: CheckUpdateThread_sync_def SendHeartbeat_def FetchPipelineConfig_def
        SignHeader_def client_Send_def heartbeat_results_def world_def unchanged_a_1_def
        c_str_def Let_def UpdateRemoteConfig_def UpdateRemoteConfig_upto_def run_loop_def
        agent_a1_def loop_body_def initial_Locals_def)


text \<open>
  The sibling path. When the first response to the heartbeat has status 400, 401 or 403,
  \<open>SendHeartbeat\<close> calls \<open>FlushCredential\<close> once; if that fails it returns the empty
  result; otherwise it signs and sends the same request once more, returns the empty
  result if that send throws, and otherwise goes on with the second response.
\<close>

lemma SendHeartbeat_refreshes_and_retries_once:
  assumes "replies w = HttpMessage statusCode content # rest"
      and "statusCode = 400 \<or> statusCode = 401 \<or> statusCode = 403"
  shows "calls (snd (SendHeartbeat parseHB requestId w))
           = calls w @ [EvSignHeader, EvSend (HeartBeat requestId), EvFlushCredential]
             @ (if take 1 (flushes w) = [True] then [EvSignHeader, EvSend (HeartBeat requestId)] else [])
       \<and> fst (SendHeartbeat parseHB requestId w)
           = (if take 1 (flushes w) = [True]
              then (case rest of
                      HttpMessage statusCode2 content2 # _ \<Rightarrow> heartbeat_results parseHB requestId content2
                    | _ \<Rightarrow> [])
              else [])"
proof -
  have hb_calls: "calls (snd (SendHeartbeat parseHB requestId w))
           = calls w @ [EvSignHeader, EvSend (HeartBeat requestId), EvFlushCredential]
             @ (if take 1 (flushes w) = [True] then [EvSignHeader, EvSend (HeartBeat requestId)] else [])"
    using assms
    by (cases "flushes w"; cases rest)
       (auto simp add: SendHeartbeat_def SignHeader_def client_Send_def FlushCredential_def Let_def
             split: http.splits)
  have hb_result: "fst (SendHeartbeat parseHB requestId w)
           = (if take 1 (flushes w) = [True]
              then (case rest of
                      HttpMessage statusCode2 content2 # _ \<Rightarrow> heartbeat_results parseHB requestId content2
                    | _ \<Rightarrow> [])
              else [])"
    using assms
    by (cases "flushes w"; cases rest)
       (auto simp add: SendHeartbeat_def SignHeader_def client_Send_def FlushCredential_def Let_def
             split: http.splits)
  from hb_calls hb_result show ?thesis by simp
qed

text \<open>
  \<open>FetchPipelineConfig\<close> sends its request once and never calls \<open>FlushCredential\<close>, whatever
  the status of the response.
\<close>

lemma FetchPipelineConfig_sends_once:
  "calls (snd (FetchPipelineConfig parseF instanceId fetchId requestConfigs w))
     = calls w @ [EvSend (Fetch \<lparr>fq_request_id = fetchId, fq_agent_id = instanceId,
                                  fq_req_configs = configInfos requestConfigs\<rparr>)]
   \<and> flushes (snd (FetchPipelineConfig parseF instanceId fetchId requestConfigs w)) = flushes w"
  by (simp add: FetchPipelineConfig_calls FetchPipelineConfig_flushes)

text \<open>
  Claim C3 at a failing input: the heartbeat announces \<open>a\<close> as MODIFIED from version 1 to
  version 2, the fetch request is answered with status 401, a refresh of the credential
  would succeed and a good fetch response is ready for a second send. The cycle sends the
  fetch request once, calls \<open>FlushCredential\<close> never and sends nothing again; it then
  applies the check results without any detail: \<open>a@1.yaml\<close> is removed and \<open>a@2.yaml\<close> is
  written empty.
\<close>

theorem fetch_401_cycle_applies_without_details:
  "calls (CheckUpdateThread_sync parseHeartBeat parseFetch ''agent'' ''hb'' ''ft'' False
      (world [HttpMessage 200 (HeartBeatContent
                 \<lparr>hb_request_id = ''hb'', hb_pipeline_check_results = [modified_a_1_2]\<rparr>),
              HttpMessage 401 ErrorPage,
              HttpMessage 200 (FetchContent
                 \<lparr>fr_request_id = ''ft'', fr_config_details = [detail_a_2]\<rparr>)] [True]))
     = [EvSignHeader, EvSend (HeartBeat ''hb''),
        EvSend (Fetch \<lparr>fq_request_id = ''ft'', fq_agent_id = ''agent'',
                  fq_req_configs = [\<lparr>ci_name = ''a'', ci_version = 2, ci_context = []\<rparr>]\<rparr>)]
   \<and> flushes (CheckUpdateThread_sync parseHeartBeat parseFetch ''agent'' ''hb'' ''ft'' False
      (world [HttpMessage 200 (HeartBeatContent
                 \<lparr>hb_request_id = ''hb'', hb_pipeline_check_results = [modified_a_1_2]\<rparr>),
              HttpMessage 401 ErrorPage,
              HttpMessage 200 (FetchContent
                 \<lparr>fr_request_id = ''ft'', fr_config_details = [detail_a_2]\<rparr>)] [True]))
     = [True]
   \<and> replies (CheckUpdateThread_sync parseHeartBeat parseFetch ''agent'' ''hb'' ''ft'' False
      (world [HttpMessage 200 (HeartBeatContent
                 \<lparr>hb_request_id = ''hb'', hb_pipeline_check_results = [modified_a_1_2]\<rparr>),
              HttpMessage 401 ErrorPage,
              HttpMessage 200 (FetchContent
                 \<lparr>fr_request_id = ''ft'', fr_config_details = [detail_a_2]\<rparr>)] [True]))
     = [HttpMessage 200 (FetchContent \<lparr>fr_request_id = ''ft'', fr_config_details = [detail_a_2]\<rparr>)]
   \<and> files agent_a1 = [''/conf/a@1.yaml'' \<mapsto> ''v1'']
   \<and> files (agent (CheckUpdateThread_sync parseHeartBeat parseFetch ''agent'' ''hb'' ''ft'' False
      (world [HttpMessage 200 (HeartBeatContent
                 \<lparr>hb_request_id = ''hb'', hb_pipeline_check_results = [modified_a_1_2]\<rparr>),
              HttpMessage 401 ErrorPage,
              HttpMessage 200 (FetchContent
                 \<lparr>fr_request_id = ''ft'', fr_config_details = [detail_a_2]\<rparr>)] [True])))
     = [''/conf/a@2.yaml'' \<mapsto> []]"
  by (simp add: CheckUpdateThread_sync_def SendHeartbeat_def FetchPipelineConfig_def
        SignHeader_def client_Send_def heartbeat_results_def inputs_defs eval_defs)

text \<open>
  A response whose request id differs from the caller's as \<^verbatim>\<open>strcmp\<close> compares them (the
  bytes before the first NUL byte) is discarded: the response to the first send when its
  status is not 400, 401 or 403, the response to the second send otherwise, and the
  response to the fetch request.
\<close>

lemma SendHeartbeat_discards_mismatched_response:
  assumes "replies w = HttpMessage statusCode content # rest"
      and "\<not> (statusCode = 400 \<or> statusCode = 401 \<or> statusCode = 403)"
      and "c_str (hb_request_id (parseHB content)) \<noteq> c_str requestId"
  shows "fst (SendHeartbeat parseHB requestId w) = []"
  using assms
  by (simp add: SendHeartbeat_def SignHeader_def client_Send_def Let_def heartbeat_results_mismatch)

lemma SendHeartbeat_discards_mismatched_retry_response:
  assumes "replies w = HttpMessage statusCode content # HttpMessage statusCode2 content2 # rest"
      and "statusCode = 400 \<or> statusCode = 401 \<or> statusCode = 403"
      and "c_str (hb_request_id (parseHB content2)) \<noteq> c_str requestId"
  shows "fst (SendHeartbeat parseHB requestId w) = []"
  using assms
  by (cases "flushes w")
     (auto simp add: SendHeartbeat_def SignHeader_def client_Send_def FlushCredential_def Let_def
                     heartbeat_results_mismatch)

lemma FetchPipelineConfig_discards_mismatched_response:
  assumes "replies w = HttpMessage statusCode content # rest"
      and "c_str (fr_request_id (parseF content)) \<noteq> c_str fetchId"
  shows "fst (FetchPipelineConfig parseF instanceId fetchId requestConfigs w) = []"
  using assms
  by (simp add: FetchPipelineConfig_def client_Send_def Let_def strcmp_0_iff)

text \<open>
  Claim C5 at a failing input: the request id of the response differs from the caller's
  id, but only after a NUL byte; \<^verbatim>\<open>strcmp\<close> on the two \<^verbatim>\<open>c_str()\<close> gives 0, and
  \<open>SendHeartbeat\<close> returns the check results of that response, \<open>FetchPipelineConfig\<close> its
  details, instead of the empty result.
\<close>

theorem request_id_differing_after_NUL_is_accepted:
  "hb_request_id \<lparr>hb_request_id = ''hb'' @ [CHR 0x00] @ ''old'', hb_pipeline_check_results = [new_a_1]\<rparr>
     \<noteq> ''hb''
   \<and> fst (SendHeartbeat parseHeartBeat ''hb''
        (world [HttpMessage 200 (HeartBeatContent
                  \<lparr>hb_request_id = ''hb'' @ [CHR 0x00] @ ''old'',
                     hb_pipeline_check_results = [new_a_1]\<rparr>)] [])) = [new_a_1]
   \<and> fr_request_id \<lparr>fr_request_id = ''ft'' @ [CHR 0x00] @ ''old'', fr_config_details = [detail_a_1]\<rparr>
     \<noteq> ''ft''
   \<and> fst (FetchPipelineConfig parseFetch ''agent'' ''ft'' [new_a_1]
        (world [HttpMessage 200 (FetchContent
                  \<lparr>fr_request_id = ''ft'' @ [CHR 0x00] @ ''old'',
                     fr_config_details = [detail_a_1]\<rparr>)] [])) = [detail_a_1]"
  by (simp add: SendHeartbeat_def FetchPipelineConfig_def SignHeader_def client_Send_def Let_def
                heartbeat_results_def world_def c_str_def)

section \<open>Properties of the update state\<close>

lemma reachable_places_normal:
  "reachable DH GL c \<Longrightarrow>
   fst c \<in> {AtDeleteHandlers, AtGetLocalConfigUpdate, AtStartUpdateConfig} \<Longrightarrow>
   mUpdateStat (snd c) = NORMAL"
proof (induction rule: reachable.induct)
  case (start a)
  then show ?case by simp
next
  case (check c c')
  from check.hyps(2) check.IH check.prems show ?case
    by (cases rule: check_step.cases) (auto simp: IsUpdate_def split: if_splits)
next
  case (dispatch c c')
  from dispatch.hyps(2) dispatch.IH dispatch.prems show ?case
    by (cases rule: dispatcher_step.cases) (auto simp: IsUpdateConfig_def)
qed

text \<open>
  Claim C6. In every run of the check thread and the dispatcher thread, a step of the
  check thread changes the update state only by \<open>StartUpdateConfig\<close>, executed when the
  state is NORMAL, after the test \<^verbatim>\<open>!IsUpdate()\<close> of the same cycle succeeded; the state
  is still NORMAL when \<open>GetLocalConfigUpdate\<close> assembles the batch. While the state is
  UPDATE_CONFIG, no step of the check thread changes the shared data or the update state:
  the pending batch is not overwritten and no second batch is published.
\<close>

theorem check_thread_publishes_only_from_NORMAL:
  assumes "reachable DH GL (p, a)" and "check_step DH GL (p, a) (p', a')"
  shows "(mUpdateStat a' \<noteq> mUpdateStat a \<longrightarrow>
            p = AtStartUpdateConfig \<and> \<not> IsUpdate a \<and> a' = StartUpdateConfig a)
       \<and> (p = AtGetLocalConfigUpdate \<or> p = AtStartUpdateConfig \<longrightarrow> \<not> IsUpdate a)
       \<and> (IsUpdate a \<longrightarrow> shared a' = shared a \<and> mUpdateStat a' = mUpdateStat a)"
proof -
  from reachable_places_normal [OF assms(1)]
  have inv: "p \<in> {AtDeleteHandlers, AtGetLocalConfigUpdate, AtStartUpdateConfig} \<Longrightarrow> mUpdateStat a = NORMAL"
    by simp
  from assms(2) inv show ?thesis
    by (cases rule: check_step.cases)
       (auto simp: IsUpdate_def StartUpdateConfig_def UpdateRemoteConfig_frame)
qed

theorem check_thread_publishes_only_from_NORMAL_witness:
  "reachable (\<lambda>s. s) getLocal (AtStartUpdateConfig, agent_ready)
   \<and> check_step (\<lambda>s. s) getLocal (AtStartUpdateConfig, agent_ready) (AtCycleEnd, StartUpdateConfig agent_ready)
   \<and> mUpdateStat (StartUpdateConfig agent_ready) \<noteq> mUpdateStat agent_ready
   \<and> \<not> IsUpdate agent_ready
   \<and> reachable (\<lambda>s. s) getLocal (AtCycleEnd, StartUpdateConfig agent_ready)
   \<and> check_step (\<lambda>s. s) getLocal (AtCycleEnd, StartUpdateConfig agent_ready)
        (AtFirstTest, StartUpdateConfig agent_ready)
   \<and> IsUpdate (StartUpdateConfig agent_ready)
   \<and> shared (StartUpdateConfig agent_ready) = [''a'']"
proof -
  let ?DH = "\<lambda>s::string list. s"
  have normal: "\<not> IsUpdate agent_a1"
    by (simp add: IsUpdate_def agent_a1_def)
  have r0: "reachable ?DH getLocal (AtFirstTest, agent_a1)"
    by (rule reachable.start)
  have r1: "reachable ?DH getLocal (AtDeleteHandlers, agent_a1)"
    by (rule reachable.check [OF r0]) (rule check_step.first_test_normal [OF normal])
  have "reachable ?DH getLocal (AtSecondTest, agent_a1\<lparr>shared := ?DH (shared agent_a1)\<rparr>)"
    by (rule reachable.check [OF r1]) (rule check_step.delete_handlers)
  then have r2: "reachable ?DH getLocal (AtSecondTest, agent_a1)"
    by simp
  have r3: "reachable ?DH getLocal (AtGetLocalConfigUpdate, agent_a1)"
    by (rule reachable.check [OF r2]) (rule check_step.second_test_normal [OF normal])
  have g: "getLocal (files agent_a1) (shared agent_a1) = (True, [''a''])"
    by (simp add: getLocal_def agent_a1_def)
  have "reachable ?DH getLocal
          (if True then AtStartUpdateConfig else AtCycleEnd, agent_a1\<lparr>shared := [''a'']\<rparr>)"
    by (rule reachable.check [OF r3])
       (rule check_step.get_local_config_update
          [where GetLocalConfigUpdate = getLocal and a = agent_a1 and changed = True
             and s' = "[''a'']", OF g])
  then have r4: "reachable ?DH getLocal (AtStartUpdateConfig, agent_ready)"
    by (simp add: agent_ready_def)
  have s4: "check_step ?DH getLocal (AtStartUpdateConfig, agent_ready) (AtCycleEnd, StartUpdateConfig agent_ready)"
    by (rule check_step.start_update_config)
  have r5: "reachable ?DH getLocal (AtCycleEnd, StartUpdateConfig agent_ready)"
    by (rule reachable.check [OF r4 s4])
  have s5: "check_step ?DH getLocal (AtCycleEnd, StartUpdateConfig agent_ready)
              (AtFirstTest, StartUpdateConfig agent_ready)"
    by (rule check_step.next_cycle)
  have changed: "mUpdateStat (StartUpdateConfig agent_ready) \<noteq> mUpdateStat agent_ready"
    by (simp add: StartUpdateConfig_def agent_ready_def agent_a1_def)
  have pending: "IsUpdate (StartUpdateConfig agent_ready)"
    by (simp add: IsUpdate_def StartUpdateConfig_def)
  from check_thread_publishes_only_from_NORMAL [OF r4 s4] changed
  have a: "\<not> IsUpdate agent_ready" by simp
  from check_thread_publishes_only_from_NORMAL [OF r5 s5] pending
  have b: "shared (StartUpdateConfig agent_ready) = shared (StartUpdateConfig agent_ready)" by simp
  have c: "shared (StartUpdateConfig agent_ready) = [''a'']"
    by (simp add: StartUpdateConfig_def agent_ready_def)
  from r4 s4 changed a r5 s5 pending c show ?thesis by simp
qed

section \<open>Properties of UpdateAccessKey\<close>







end
